theory Spec2Isabelle
  imports Complex_Main "HOL-Library.Multiset"
begin

section \<open>Data model\<close>

text \<open>
  Every exception the modelled code can raise is a value. The names follow the Python
  exception classes; the spec's own taxonomy calls \<open>RuntimeError_not_fitted\<close> a
  NotFittedError and \<open>ValueError_larger_sample\<close> a SamplingError.
\<close>

datatype error =
    TypeError_not_callable
  | IndexError_out_of_bounds
  | ValueError_negative_sample
  | ValueError_larger_sample
  | RuntimeError_not_fitted
  | IndexError_empty_reduction
  | RuntimeError_shape_mismatch
  | AttributeError

text \<open>
  A \<open>pd.DataFrame\<close> of candidates: an ordered list of rows, each an identifier (its
  entry in \<open>df.index\<close>) with a numeric feature vector.
\<close>

type_synonym 'id dataframe = "('id \<times> real list) list"

definition df_index :: "'id dataframe \<Rightarrow> 'id list" where
  "df_index df = map fst df"

text \<open>
  Modelled from the spec: \<open>utils.to_tensor\<close> is imported by both modules and is not
  part of the sources; the spec describes it as the conversion of a table's full numeric
  content into a dense numeric array. A two-dimensional tensor is the list of its rows.
\<close>

definition to_tensor :: "'id dataframe \<Rightarrow> real list list" where
  "to_tensor df = map snd df"

text \<open>\<open>Tensor.unsqueeze(1)\<close>: every row becomes a group holding that row alone.\<close>

definition unsqueeze1 :: "real list list \<Rightarrow> real list list list" where
  "unsqueeze1 t = map (\<lambda>r. [r]) t"

text \<open>
  Python's slice \<open>xs[:k]\<close> for an unbounded integer \<open>k\<close>: a negative \<open>k\<close> drops the
  last \<open>-k\<close> entries, a \<open>k\<close> beyond the length keeps everything.
\<close>

definition slice_upto :: "'a list \<Rightarrow> int \<Rightarrow> 'a list" where
  "slice_upto xs k =
     (if 0 \<le> k then take (nat k) xs else take (length xs - nat (- k)) xs)"

text \<open>
  \<open>index[positions]\<close>: positional lookup in the table's index; a position outside the
  table raises IndexError.
\<close>

definition index_getitem :: "'id list \<Rightarrow> nat list \<Rightarrow> error + 'id list" where
  "index_getitem idx ps =
     (if list_all (\<lambda>p. p < length idx) ps then Inr (map (nth idx) ps)
      else Inl IndexError_out_of_bounds)"

section \<open>Recommenders\<close>

text \<open>
  A recommender holds an optional acquisition function. The function takes a tensor of
  shape batch x group x D and returns one score per batch element.
\<close>

record recommender =
  acquisition_function :: "(real list list list \<Rightarrow> real list) option"

text \<open>
  What \<open>torch.argsort(v, descending=True)\<close> promises of its result \<open>p\<close>: a
  rearrangement of the positions \<open>0..<length v\<close> along which the scores never increase.
  The source does not pass \<open>stable=True\<close>, so nothing is promised about the order of
  positions with equal scores.
\<close>

definition is_argsort_desc :: "real list \<Rightarrow> nat list \<Rightarrow> bool" where
  "is_argsort_desc v p \<longleftrightarrow>
     length p = length v \<and> distinct p \<and> list_all (\<lambda>i. i < length v) p \<and>
     sorted_wrt (\<lambda>i j. v ! j \<le> v ! i) p"

text \<open>
  \<open>MarginalRankingRecommender.recommend\<close>. The sorting routine \<open>torch.argsort\<close> is a
  parameter: its result on tied scores is not fixed by the source.
\<close>

definition MarginalRankingRecommender_recommend ::
  "(real list \<Rightarrow> nat list) \<Rightarrow> recommender \<Rightarrow> 'id dataframe \<Rightarrow> int \<Rightarrow> error + 'id list"
where
  "MarginalRankingRecommender_recommend argsort_desc self candidates batch_quantity =
     (let candidates_tensor = unsqueeze1 (to_tensor candidates) in
      case acquisition_function self of
        None \<Rightarrow> Inl TypeError_not_callable
      | Some acqf \<Rightarrow>
          (let acqf_values = acqf candidates_tensor;
               ilocs = argsort_desc acqf_values
           in index_getitem (df_index candidates) (slice_upto ilocs batch_quantity)))"

text \<open>
  \<open>DataFrame.take\<close> on positions, and \<open>DataFrame.sample(n)\<close> with the default
  \<open>replace=False\<close>. The random draw is the parameter \<open>choice\<close>: given the population
  size and \<open>n\<close> it returns the drawn positions (NumPy's \<open>RandomState.choice\<close>).
\<close>

definition DataFrame_take :: "'id dataframe \<Rightarrow> nat list \<Rightarrow> error + 'id dataframe" where
  "DataFrame_take df ps =
     (if list_all (\<lambda>p. p < length df) ps then Inr (map (nth df) ps)
      else Inl IndexError_out_of_bounds)"

definition DataFrame_sample ::
  "(nat \<Rightarrow> nat \<Rightarrow> nat list) \<Rightarrow> 'id dataframe \<Rightarrow> int \<Rightarrow> error + 'id dataframe"
where
  "DataFrame_sample choice df n =
     (if n < 0 then Inl ValueError_negative_sample
      else if int (length df) < n then Inl ValueError_larger_sample
      else DataFrame_take df (choice (length df) (nat n)))"

text \<open>\<open>RandomRecommender.recommend\<close>: the index of the sampled rows.\<close>

definition RandomRecommender_recommend ::
  "(nat \<Rightarrow> nat \<Rightarrow> nat list) \<Rightarrow> recommender \<Rightarrow> 'id dataframe \<Rightarrow> int \<Rightarrow> error + 'id list"
where
  "RandomRecommender_recommend choice self candidates batch_quantity =
     (case DataFrame_sample choice candidates batch_quantity of
        Inl e \<Rightarrow> Inl e
      | Inr sampled \<Rightarrow> Inr (df_index sampled))"

section \<open>Tensor arithmetic\<close>

text \<open>
  Tensors handed to the scaler hold real numbers and the arithmetic on them is exact:
  neither rounding nor overflow is modelled, so a computed value stands for the code's
  float (up to rounding) where no intermediate result leaves the finite range of the
  tensor's dtype. Results of the scaler's arithmetic are \<open>real option\<close>, where \<open>None\<close>
  is the non-finite float (\<open>nan\<close> or an infinity) that torch returns, raising nothing,
  for a division by zero and for the mean or standard deviation of too few values; every
  later operation on that value is non-finite again.
\<close>

type_synonym tnum = "real option"

definition fsub :: "tnum \<Rightarrow> tnum \<Rightarrow> tnum" where
  "fsub a b = (case (a, b) of (Some u, Some w) \<Rightarrow> Some (u - w) | _ \<Rightarrow> None)"

definition fadd :: "tnum \<Rightarrow> tnum \<Rightarrow> tnum" where
  "fadd a b = (case (a, b) of (Some u, Some w) \<Rightarrow> Some (u + w) | _ \<Rightarrow> None)"

definition fmul :: "tnum \<Rightarrow> tnum \<Rightarrow> tnum" where
  "fmul a b = (case (a, b) of (Some u, Some w) \<Rightarrow> Some (u * w) | _ \<Rightarrow> None)"

definition fdiv :: "tnum \<Rightarrow> tnum \<Rightarrow> tnum" where
  "fdiv a b =
     (case (a, b) of
        (Some u, Some w) \<Rightarrow> (if w = 0 then None else Some (u / w))
      | _ \<Rightarrow> None)"

text \<open>
  The largest finite value of \<open>torch.float32\<close>. A magnitude up to it is finite in single
  and in double precision, the float dtypes a numeric table converts to.
\<close>

definition float_max :: real where
  "float_max = (2 - 1 / 2 ^ 23) * 2 ^ 127"

text \<open>
  An elementwise operation on two rows under torch's broadcasting rule for the last
  dimension: equal widths pair up, a width of one is stretched, anything else raises
  RuntimeError.
\<close>

definition broadcast2 :: "('a \<Rightarrow> 'b \<Rightarrow> 'c) \<Rightarrow> 'a list \<Rightarrow> 'b list \<Rightarrow> error + 'c list" where
  "broadcast2 f xs ys =
     (if length xs = length ys then Inr (map2 f xs ys)
      else if length ys = 1 then Inr (map (\<lambda>u. f u (hd ys)) xs)
      else if length xs = 1 then Inr (map (f (hd xs)) ys)
      else Inl RuntimeError_shape_mismatch)"

text \<open>An operation on every row of a two-dimensional tensor fails when one row fails.\<close>

fun each_row :: "('a \<Rightarrow> error + 'b) \<Rightarrow> 'a list \<Rightarrow> error + 'b list" where
  "each_row f [] = Inr []"
| "each_row f (r # rs) =
     (case f r of
        Inl e \<Rightarrow> Inl e
      | Inr w \<Rightarrow> (case each_row f rs of Inl e \<Rightarrow> Inl e | Inr ws \<Rightarrow> Inr (w # ws)))"

text \<open>
  \<open>torch.min(t, dim=0)[0]\<close> and \<open>torch.max(t, dim=0)[0]\<close>: the minimum and maximum of
  every column. A reduction over no rows raises IndexError.
\<close>

definition torch_min_dim0 :: "real list list \<Rightarrow> error + real list" where
  "torch_min_dim0 t =
     (case t of [] \<Rightarrow> Inl IndexError_empty_reduction | r # rs \<Rightarrow> Inr (foldl (map2 min) r rs))"

definition torch_max_dim0 :: "real list list \<Rightarrow> error + real list" where
  "torch_max_dim0 t =
     (case t of [] \<Rightarrow> Inl IndexError_empty_reduction | r # rs \<Rightarrow> Inr (foldl (map2 max) r rs))"

text \<open>
  \<open>torch.mean(y, dim=0)\<close> and \<open>torch.std(y, dim=0)\<close> of a column of targets. The mean
  of no values is \<open>nan\<close>. \<open>torch.std\<close> applies Bessel's correction by default: it divides
  the sum of squared deviations by \<open>n - 1\<close>, and gives \<open>nan\<close> for fewer than two values.
  Both are the exact values: a sum that overflows in floats is not modelled, so they stand
  for the code's results only on targets whose sums and squares stay in the float range.
\<close>

definition torch_mean :: "real list \<Rightarrow> tnum" where
  "torch_mean y = (if y = [] then None else Some (sum_list y / real (length y)))"

definition torch_std :: "real list \<Rightarrow> tnum" where
  "torch_std y =
     (if length y < 2 then None
      else Some (sqrt (sum_list (map (\<lambda>w. (w - sum_list y / real (length y))\<^sup>2) y)
                       / real (length y - 1))))"

section \<open>Scalers\<close>

text \<open>
  A scaler instance. \<open>__init__\<close> only annotates the six scale functions, so each of
  these attributes is absent (\<open>None\<close>) until \<open>fit_transform\<close> assigns it. Inputs and
  their scaled forms are two-dimensional (rows of features), targets, means and
  variances are columns.
\<close>

record 'id scaler =
  searchspace :: "'id dataframe"
  fitted :: bool
  scale_x :: "(real list list \<Rightarrow> error + tnum list list) option"
  scale_y :: "(real list \<Rightarrow> tnum list) option"
  unscale_x :: "(real list list \<Rightarrow> error + real list list) option"
  unscale_y :: "(real list \<Rightarrow> tnum list) option"
  unscale_m :: "(real list \<Rightarrow> tnum list) option"
  unscale_s :: "(real list \<Rightarrow> tnum list) option"

definition Scaler_init :: "'id dataframe \<Rightarrow> 'id scaler" where
  "Scaler_init ss =
     \<lparr>searchspace = ss, fitted = False, scale_x = None, scale_y = None,
      unscale_x = None, unscale_y = None, unscale_m = None, unscale_s = None\<rparr>"

definition Scaler_transform :: "'id scaler \<Rightarrow> real list list \<Rightarrow> error + tnum list list" where
  "Scaler_transform self x =
     (if \<not> fitted self then Inl RuntimeError_not_fitted
      else case scale_x self of None \<Rightarrow> Inl AttributeError | Some f \<Rightarrow> f x)"

definition Scaler_untransform ::
  "'id scaler \<Rightarrow> real list \<Rightarrow> real list \<Rightarrow> error + tnum list \<times> tnum list"
where
  "Scaler_untransform self mean variance =
     (if \<not> fitted self then Inl RuntimeError_not_fitted
      else case unscale_m self of
        None \<Rightarrow> Inl AttributeError
      | Some f \<Rightarrow>
          (case unscale_s self of
             None \<Rightarrow> Inl AttributeError
           | Some g \<Rightarrow> Inr (f mean, g variance)))"

text \<open>
  The six closures of \<open>DefaultScaler.fit_transform\<close>, each taking the variables it
  captures (\<open>bounds\<close> as the pair of its two rows, \<open>mean\<close>, \<open>std\<close>) before its argument.
\<close>

definition scale_x_lambda ::
  "real list \<times> real list \<Rightarrow> real list list \<Rightarrow> error + tnum list list"
where
  "scale_x_lambda bounds l =
     each_row (\<lambda>row.
       case broadcast2 (\<lambda>u w. u - w) row (fst bounds) of
         Inl e \<Rightarrow> Inl e
       | Inr num \<Rightarrow>
           broadcast2 (\<lambda>u w. fdiv (Some u) (Some w)) num
             (map2 (\<lambda>u w. u - w) (snd bounds) (fst bounds))) l"

definition scale_y_lambda :: "tnum \<Rightarrow> tnum \<Rightarrow> real list \<Rightarrow> tnum list" where
  "scale_y_lambda mean std l = map (\<lambda>w. fdiv (fsub (Some w) mean) std) l"

definition unscale_x_lambda ::
  "real list \<times> real list \<Rightarrow> real list list \<Rightarrow> error + real list list"
where
  "unscale_x_lambda bounds l =
     each_row (\<lambda>row.
       case broadcast2 (\<lambda>u w. u * w) row
              (map2 (\<lambda>u w. u - w) (snd bounds) (fst bounds)) of
         Inl e \<Rightarrow> Inl e
       | Inr stretched \<Rightarrow> broadcast2 (\<lambda>u w. u + w) stretched (fst bounds)) l"

definition unscale_y_lambda :: "tnum \<Rightarrow> tnum \<Rightarrow> real list \<Rightarrow> tnum list" where
  "unscale_y_lambda mean std l = map (\<lambda>w. fadd (fmul (Some w) std) mean) l"

definition unscale_m_lambda :: "tnum \<Rightarrow> tnum \<Rightarrow> real list \<Rightarrow> tnum list" where
  "unscale_m_lambda mean std l = map (\<lambda>w. fadd (fmul (Some w) std) mean) l"

definition unscale_s_lambda :: "tnum \<Rightarrow> real list \<Rightarrow> tnum list" where
  "unscale_s_lambda std l = map (\<lambda>w. fmul (Some w) (fmul std std)) l"

text \<open>
  \<open>DefaultScaler.fit_transform\<close> returns the instance as the call leaves it together
  with the call's outcome. The bounds are reduced first and can raise before anything is
  stored; the six functions and the flag are stored next; the training data is scaled
  last, so a shape error raised there leaves the instance with the flag already set.
\<close>

definition DefaultScaler_fit_transform ::
  "'id scaler \<Rightarrow> real list list \<Rightarrow> real list
     \<Rightarrow> 'id scaler \<times> (error + tnum list list \<times> tnum list)"
where
  "DefaultScaler_fit_transform self x y =
     (case torch_min_dim0 (to_tensor (searchspace self)) of
        Inl e \<Rightarrow> (self, Inl e)
      | Inr lo \<Rightarrow>
     (case torch_max_dim0 (to_tensor (searchspace self)) of
        Inl e \<Rightarrow> (self, Inl e)
      | Inr hi \<Rightarrow>
          (let bounds = (lo, hi);
               mean = torch_mean y;
               std = torch_std y;
               self' = self
                 \<lparr>scale_x := Some (scale_x_lambda bounds),
                  scale_y := Some (scale_y_lambda mean std),
                  unscale_x := Some (unscale_x_lambda bounds),
                  unscale_y := Some (unscale_y_lambda mean std),
                  unscale_m := Some (unscale_m_lambda mean std),
                  unscale_s := Some (unscale_s_lambda std),
                  fitted := True\<rparr>
           in (self',
               case scale_x_lambda bounds x of
                 Inl e \<Rightarrow> Inl e
               | Inr sx \<Rightarrow> Inr (sx, scale_y_lambda mean std y)))))"

text \<open>
  The instances a program can hold: a fresh one, or one that any sequence of
  \<open>fit_transform\<close> calls has left behind (\<open>transform\<close> and \<open>untransform\<close> store nothing).
\<close>

inductive scaler_reachable :: "'id scaler \<Rightarrow> bool" where
  fresh: "scaler_reachable (Scaler_init ss)"
| refit: "scaler_reachable s \<Longrightarrow> scaler_reachable (fst (DefaultScaler_fit_transform s x y))"

section \<open>Strategy registries\<close>

text \<open>
  A class as the registration hook sees it: its name, the \<open>type\<close> attribute as attribute
  lookup on the class resolves it (\<open>None\<close> when no class on the way assigns one: the bases
  only annotate it), and its direct bases. A registry is the \<open>SUBCLASSES\<close> dictionary
  of a base class, from strategy names to classes (by name).
\<close>

record pyclass =
  cls_name :: string
  cls_type :: "string option"
  cls_bases :: "string list"

type_synonym registry = "string \<rightharpoonup> string"

text \<open>
  \<open>Recommender.__init_subclass__\<close> and \<open>Scaler.__init_subclass__\<close>, which Python runs
  on every class statement that derives from the base, never on the base itself. The
  helper \<open>utils.isabstract\<close> is not part of the sources and is a parameter. The scaler's
  hook does not consult it.
\<close>

definition Recommender_init_subclass ::
  "(pyclass \<Rightarrow> bool) \<Rightarrow> registry \<Rightarrow> pyclass \<Rightarrow> error + registry"
where
  "Recommender_init_subclass isabstract SUBCLASSES cls =
     (if \<not> isabstract cls then
        (case cls_type cls of
           None \<Rightarrow> Inl AttributeError
         | Some t \<Rightarrow> Inr (SUBCLASSES(t \<mapsto> cls_name cls)))
      else Inr SUBCLASSES)"

definition Scaler_init_subclass :: "registry \<Rightarrow> pyclass \<Rightarrow> error + registry" where
  "Scaler_init_subclass SUBCLASSES cls =
     (case cls_type cls of
        None \<Rightarrow> Inl AttributeError
      | Some t \<Rightarrow> Inr (SUBCLASSES(t \<mapsto> cls_name cls)))"

text \<open>The class statements of the two modules, in source order.\<close>

definition MarginalRankingRecommender_cls :: pyclass where
  "MarginalRankingRecommender_cls =
     \<lparr>cls_name = ''MarginalRankingRecommender'', cls_type = Some ''UNRESTRICTED_RANKING'',
      cls_bases = [''Recommender'']\<rparr>"

definition RandomRecommender_cls :: pyclass where
  "RandomRecommender_cls =
     \<lparr>cls_name = ''RandomRecommender'', cls_type = Some ''RANDOM'',
      cls_bases = [''Recommender'']\<rparr>"

definition DefaultScaler_cls :: pyclass where
  "DefaultScaler_cls =
     \<lparr>cls_name = ''DefaultScaler'', cls_type = Some ''DEFAULT'', cls_bases = [''Scaler'']\<rparr>"

definition recommender_module :: "(pyclass \<Rightarrow> bool) \<Rightarrow> error + registry" where
  "recommender_module isabstract =
     (case Recommender_init_subclass isabstract Map.empty MarginalRankingRecommender_cls of
        Inl e \<Rightarrow> Inl e
      | Inr reg \<Rightarrow> Recommender_init_subclass isabstract reg RandomRecommender_cls)"

definition scaler_module :: "error + registry" where
  "scaler_module = Scaler_init_subclass Map.empty DefaultScaler_cls"

section \<open>Properties of the recommenders\<close>

lemma slice_upto_zero: "slice_upto xs 0 = []"
  by (simp add: slice_upto_def)

lemma slice_upto_beyond: "int (length xs) < k \<Longrightarrow> slice_upto xs k = xs"
  by (simp add: slice_upto_def)

lemma slice_upto_within: "0 \<le> k \<Longrightarrow> slice_upto xs k = take (nat k) xs"
  by (simp add: slice_upto_def)

lemma is_argsort_desc_set:
  assumes "is_argsort_desc v p"
  shows "set p = {0..<length v}"
proof -
  from assms have len: "length p = length v" and d: "distinct p"
    and b: "list_all (\<lambda>i. i < length v) p"
    by (simp_all add: is_argsort_desc_def)
  from b have sub: "set p \<subseteq> {0..<length v}"
    by (auto simp: list_all_iff)
  from d len have "card (set p) = card {0..<length v}"
    by (simp add: distinct_card)
  with sub show ?thesis
    by (intro card_subset_eq) simp_all
qed

lemma is_argsort_desc_mset:
  assumes "is_argsort_desc v p"
  shows "mset p = mset [0..<length v]"
proof -
  from assms have "distinct p" by (simp add: is_argsort_desc_def)
  moreover have "set p = set [0..<length v]"
    using is_argsort_desc_set [OF assms] by simp
  ultimately show ?thesis
    using set_eq_iff_mset_eq_distinct [of p "[0..<length v]"] distinct_upt by blast
qed

lemma index_getitem_ok:
  "list_all (\<lambda>p. p < length idx) ps \<Longrightarrow> index_getitem idx ps = Inr (map (nth idx) ps)"
  by (simp add: index_getitem_def)

lemma is_argsort_desc_bounded:
  "is_argsort_desc v p \<Longrightarrow> list_all (\<lambda>i. i < length v) (take k p)"
  by (auto simp: is_argsort_desc_def list_all_iff dest: in_set_takeD)

lemma recommend_unfold:
  assumes "acquisition_function self = Some acqf"
    and "length (acqf (unsqueeze1 (to_tensor candidates))) = length candidates"
    and "is_argsort_desc (acqf (unsqueeze1 (to_tensor candidates)))
           (argsort_desc (acqf (unsqueeze1 (to_tensor candidates))))"
    and "0 \<le> k"
  shows "MarginalRankingRecommender_recommend argsort_desc self candidates k
       = Inr (map (nth (df_index candidates))
               (take (nat k) (argsort_desc (acqf (unsqueeze1 (to_tensor candidates))))))"
  using assms is_argsort_desc_bounded [OF assms(3), of "nat k"]
  by (simp add: MarginalRankingRecommender_recommend_def Let_def slice_upto_within
      index_getitem_ok df_index_def)

lemma is_argsort_desc_top:
  assumes "is_argsort_desc v p"
  shows "\<forall>i\<in>set (take k p). \<forall>j<length v. j \<notin> set (take k p) \<longrightarrow> v ! j \<le> v ! i"
proof (intro ballI allI impI)
  fix i j
  assume i: "i \<in> set (take k p)" and j: "j < length v" "j \<notin> set (take k p)"
  from j(1) have "j \<in> set p" using is_argsort_desc_set [OF assms] by simp
  then have "j \<in> set (take k p) \<union> set (drop k p)"
    by (simp only: set_append [symmetric] append_take_drop_id)
  with j(2) have jd: "j \<in> set (drop k p)" by simp
  from assms have "sorted_wrt (\<lambda>i j. v ! j \<le> v ! i) (take k p @ drop k p)"
    by (simp add: is_argsort_desc_def)
  with i jd show "v ! j \<le> v ! i"
    unfolding sorted_wrt_append by blast
qed





text \<open>
  C3. For every candidate table, \<open>RandomRecommender.recommend\<close> with a batch quantity
  above the number of candidates raises the sampling error (pandas' ValueError for a
  sample larger than the population without replacement); nothing is truncated.
\<close>

theorem random_recommend_beyond_pool_raises:
  "int (length candidates) < batch_quantity \<Longrightarrow>
   RandomRecommender_recommend choice self candidates batch_quantity
     = Inl ValueError_larger_sample"
  by (simp add: RandomRecommender_recommend_def DataFrame_sample_def)

theorem random_recommend_beyond_pool_raises_witness:
  "int (length [(''a'', [0::real]), (''b'', [1])]) < 3 \<and>
   RandomRecommender_recommend (\<lambda>n k. [0..<k]) \<lparr>acquisition_function = None\<rparr>
     [(''a'', [0]), (''b'', [1])] 3 = Inl ValueError_larger_sample"
  using random_recommend_beyond_pool_raises
    [of "[(''a'', [0]), (''b'', [1])]" 3 "\<lambda>n k. [0..<k]" "\<lparr>acquisition_function = None\<rparr>"]
  by simp

text \<open>
  C4. For every candidate table, every scoring function (one score per candidate) and
  every batch quantity from 1 to the number of candidates,
  \<open>MarginalRankingRecommender.recommend\<close> scores all candidates in one call, each as a
  group of its own, and returns the identifiers at the first \<open>batch_quantity\<close> positions
  of the descending ranking: that many distinct positions of the table, in order of
  non-increasing score, and no candidate left out scores higher than a selected one.
\<close>

theorem recommend_selects_top_scores:
  assumes "acquisition_function self = Some acqf"
    and "length (acqf (unsqueeze1 (to_tensor candidates))) = length candidates"
    and "is_argsort_desc (acqf (unsqueeze1 (to_tensor candidates)))
           (argsort_desc (acqf (unsqueeze1 (to_tensor candidates))))"
    and "1 \<le> batch_quantity" and "batch_quantity \<le> int (length candidates)"
  shows "let v = acqf (map (\<lambda>c. [snd c]) candidates);
             sel = take (nat batch_quantity) (argsort_desc v)
         in MarginalRankingRecommender_recommend argsort_desc self candidates batch_quantity
              = Inr (map (nth (df_index candidates)) sel)
          \<and> length sel = nat batch_quantity
          \<and> distinct sel
          \<and> sorted_wrt (\<lambda>i j. v ! j \<le> v ! i) sel
          \<and> (\<forall>i\<in>set sel. i < length candidates)
          \<and> (\<forall>i\<in>set sel. \<forall>j<length candidates. j \<notin> set sel \<longrightarrow> v ! j \<le> v ! i)"
proof -
  have t: "unsqueeze1 (to_tensor candidates) = map (\<lambda>c. [snd c]) candidates"
    by (simp add: unsqueeze1_def to_tensor_def)
  let ?v = "acqf (map (\<lambda>c. [snd c]) candidates)"
  let ?p = "argsort_desc ?v"
  let ?sel = "take (nat batch_quantity) ?p"
  from assms(2,3) have lv: "length ?v = length candidates" and a: "is_argsort_desc ?v ?p"
    by (simp_all add: t)
  from a have lp: "length ?p = length ?v" and d: "distinct ?p"
    and s: "sorted_wrt (\<lambda>i j. ?v ! j \<le> ?v ! i) ?p"
    by (simp_all add: is_argsort_desc_def)
  have 1: "MarginalRankingRecommender_recommend argsort_desc self candidates batch_quantity
         = Inr (map (nth (df_index candidates)) ?sel)"
    using recommend_unfold [of self acqf candidates argsort_desc batch_quantity] assms
    by (simp add: t)
  have 2: "length ?sel = nat batch_quantity"
    using lp lv assms(4,5) by simp
  have 3: "distinct ?sel" using d by simp
  have 4: "sorted_wrt (\<lambda>i j. ?v ! j \<le> ?v ! i) ?sel" using s by simp
  have 5: "\<forall>i\<in>set ?sel. i < length candidates"
    using is_argsort_desc_bounded [OF a, of "nat batch_quantity"] lv
    by (simp add: list_all_iff)
  have 6: "\<forall>i\<in>set ?sel. \<forall>j<length candidates. j \<notin> set ?sel \<longrightarrow> ?v ! j \<le> ?v ! i"
    using is_argsort_desc_top [OF a, of "nat batch_quantity"] lv by simp
  from 1 2 3 4 5 6 show ?thesis
    unfolding Let_def by blast
qed

theorem recommend_selects_top_scores_witness:
  "MarginalRankingRecommender_recommend (\<lambda>v. rev (sort_key (\<lambda>i. v ! i) [0..<length v]))
     \<lparr>acquisition_function = Some (\<lambda>t. map (\<lambda>g. hd (hd g)) t)\<rparr>
     [(''a'', [0]), (''b'', [2]), (''c'', [1])] 2 = Inr [''b'', ''c'']"
proof -
  note t = recommend_selects_top_scores
    [of "\<lparr>acquisition_function = Some (\<lambda>t. map (\<lambda>g. hd (hd g)) t)\<rparr>"
        "\<lambda>t. map (\<lambda>g. hd (hd g)) t" "[(''a'', [0]), (''b'', [2]), (''c'', [1])]"
        "\<lambda>v. rev (sort_key (\<lambda>i. v ! i) [0..<length v])" 2, unfolded Let_def]
  have "MarginalRankingRecommender_recommend (\<lambda>v. rev (sort_key (\<lambda>i. v ! i) [0..<length v]))
     \<lparr>acquisition_function = Some (\<lambda>t. map (\<lambda>g. hd (hd g)) t)\<rparr>
     [(''a'', [0]), (''b'', [2]), (''c'', [1])] 2
     = Inr (map (nth (df_index [(''a'', [0::real]), (''b'', [2]), (''c'', [1])]))
         (take (nat 2) (rev (sort_key (\<lambda>i. [0, 2, 1 :: real] ! i) [0..<length [0, 2, 1 :: real]]))))"
    by (rule t [THEN conjunct1, simplified list.map snd_conv list.sel])
      (simp_all add: is_argsort_desc_def unsqueeze1_def to_tensor_def
        upt_rec numeral_2_eq_2 numeral_3_eq_3)
  then show ?thesis
    by (simp add: df_index_def upt_rec numeral_2_eq_2 numeral_3_eq_3)
qed

text \<open>
  C5. For every candidate table and every scoring function (one score per candidate),
  \<open>MarginalRankingRecommender.recommend\<close> with a batch quantity above the number of
  candidates raises nothing and returns the whole ranked pool: the identifiers along the
  complete ranking, which are all identifiers of the table, each as often as the table
  holds it.
\<close>

theorem recommend_beyond_pool_returns_all:
  assumes "acquisition_function self = Some acqf"
    and "length (acqf (unsqueeze1 (to_tensor candidates))) = length candidates"
    and "is_argsort_desc (acqf (unsqueeze1 (to_tensor candidates)))
           (argsort_desc (acqf (unsqueeze1 (to_tensor candidates))))"
    and "int (length candidates) < batch_quantity"
  shows "MarginalRankingRecommender_recommend argsort_desc self candidates batch_quantity
           = Inr (map (nth (df_index candidates))
                   (argsort_desc (acqf (unsqueeze1 (to_tensor candidates)))))
         \<and> mset (map (nth (df_index candidates))
                   (argsort_desc (acqf (unsqueeze1 (to_tensor candidates)))))
           = mset (df_index candidates)"
proof -
  let ?v = "acqf (unsqueeze1 (to_tensor candidates))"
  let ?p = "argsort_desc ?v"
  from assms(3) have len: "length ?p = length ?v"
    by (simp add: is_argsort_desc_def)
  with assms(2,4) have "take (nat batch_quantity) ?p = ?p" by simp
  with recommend_unfold [of self acqf candidates argsort_desc batch_quantity] assms
  have r: "MarginalRankingRecommender_recommend argsort_desc self candidates batch_quantity
        = Inr (map (nth (df_index candidates)) ?p)"
    by simp
  have "mset (map (nth (df_index candidates)) ?p)
      = image_mset (nth (df_index candidates)) (mset [0..<length ?v])"
    using is_argsort_desc_mset [OF assms(3)] by simp
  also have "\<dots> = mset (map (nth (df_index candidates)) [0..<length (df_index candidates)])"
    using assms(2) by (simp add: df_index_def)
  also have "\<dots> = mset (df_index candidates)"
    by (simp only: map_nth)
  finally show ?thesis using r by simp
qed

theorem recommend_beyond_pool_returns_all_witness:
  "MarginalRankingRecommender_recommend (\<lambda>v. rev (sort_key (\<lambda>i. v ! i) [0..<length v]))
     \<lparr>acquisition_function = Some (\<lambda>t. map (\<lambda>g. hd (hd g)) t)\<rparr>
     [(''a'', [0]), (''b'', [2]), (''c'', [1])] 5 = Inr [''b'', ''c'', ''a'']"
  using recommend_beyond_pool_returns_all
    [of "\<lparr>acquisition_function = Some (\<lambda>t. map (\<lambda>g. hd (hd g)) t)\<rparr>"
        "\<lambda>t. map (\<lambda>g. hd (hd g)) t" "[(''a'', [0]), (''b'', [2]), (''c'', [1])]"
        "\<lambda>v. rev (sort_key (\<lambda>i. v ! i) [0..<length v])" 5]
  by (simp add: is_argsort_desc_def unsqueeze1_def to_tensor_def df_index_def Let_def
      upt_rec numeral_2_eq_2 numeral_3_eq_3)

text \<open>
  C10. For every candidate table and every scoring function, a call of
  \<open>MarginalRankingRecommender.recommend\<close> with \<open>batch_quantity = 0\<close> returns the empty
  selection and raises nothing: the selection is the slice \<open>ilocs[:0]\<close> of the ranking.
\<close>

theorem recommend_zero_batch_is_empty:
  "acquisition_function self = Some acqf \<Longrightarrow>
   MarginalRankingRecommender_recommend argsort_desc self candidates 0 = Inr []"
  by (simp add: MarginalRankingRecommender_recommend_def slice_upto_zero
      index_getitem_def Let_def)

theorem recommend_zero_batch_is_empty_witness:
  "MarginalRankingRecommender_recommend (\<lambda>v. [1, 0])
     \<lparr>acquisition_function = Some (\<lambda>t. map (\<lambda>g. 1) t)\<rparr>
     [(''a'', [0]), (''b'', [1])] 0 = Inr []"
  using recommend_zero_batch_is_empty
    [of "\<lparr>acquisition_function = Some (\<lambda>t. map (\<lambda>g. 1) t)\<rparr>" "\<lambda>t. map (\<lambda>g. 1) t"
        "\<lambda>v. [1, 0]" "[(''a'', [0]), (''b'', [1])]"]
  by simp

section \<open>Properties of the scalers\<close>

lemma broadcast2_error:
  "broadcast2 f xs ys = Inl e \<Longrightarrow> e = RuntimeError_shape_mismatch"
  by (auto simp: broadcast2_def split: if_splits)

lemma each_row_error:
  "each_row f l = Inl e \<Longrightarrow> \<exists>r. f r = Inl e"
  by (induction l) (auto split: sum.splits)

lemma scale_x_lambda_error:
  assumes "scale_x_lambda bounds l = Inl e"
  shows "e = RuntimeError_shape_mismatch"
proof -
  from assms obtain r where
    "(case broadcast2 (\<lambda>u w. u - w) r (fst bounds) of
        Inl e \<Rightarrow> Inl e
      | Inr num \<Rightarrow>
          broadcast2 (\<lambda>u w. fdiv (Some u) (Some w)) num
            (map2 (\<lambda>u w. u - w) (snd bounds) (fst bounds))) = Inl e"
    unfolding scale_x_lambda_def by (blast dest: each_row_error)
  then show ?thesis
    by (auto split: sum.splits dest: broadcast2_error)
qed

lemma fit_transform_empty_space:
  "to_tensor (searchspace s) = [] \<Longrightarrow>
   DefaultScaler_fit_transform s x y = (s, Inl IndexError_empty_reduction)"
  by (simp add: DefaultScaler_fit_transform_def torch_min_dim0_def)

lemma fit_transform_stores:
  assumes "to_tensor (searchspace s) = r # rs"
  shows "fst (DefaultScaler_fit_transform s x y) =
     s\<lparr>scale_x := Some (scale_x_lambda (foldl (map2 min) r rs, foldl (map2 max) r rs)),
       scale_y := Some (scale_y_lambda (torch_mean y) (torch_std y)),
       unscale_x := Some (unscale_x_lambda (foldl (map2 min) r rs, foldl (map2 max) r rs)),
       unscale_y := Some (unscale_y_lambda (torch_mean y) (torch_std y)),
       unscale_m := Some (unscale_m_lambda (torch_mean y) (torch_std y)),
       unscale_s := Some (unscale_s_lambda (torch_std y)),
       fitted := True\<rparr>"
  using assms
  by (simp add: DefaultScaler_fit_transform_def torch_min_dim0_def torch_max_dim0_def Let_def)

lemma fit_transform_outcome:
  assumes "to_tensor (searchspace s) = r # rs"
  shows "snd (DefaultScaler_fit_transform s x y) =
     (case scale_x_lambda (foldl (map2 min) r rs, foldl (map2 max) r rs) x of
        Inl e \<Rightarrow> Inl e
      | Inr sx \<Rightarrow> Inr (sx, scale_y_lambda (torch_mean y) (torch_std y) y))"
  using assms
  by (simp add: DefaultScaler_fit_transform_def torch_min_dim0_def torch_max_dim0_def Let_def)

lemma reachable_closures:
  "scaler_reachable s \<Longrightarrow> fitted s \<Longrightarrow>
   \<exists>b m sd. scale_x s = Some (scale_x_lambda b)
     \<and> unscale_m s = Some (unscale_m_lambda m sd)
     \<and> unscale_s s = Some (unscale_s_lambda sd)"
proof (induction rule: scaler_reachable.induct)
  case (fresh ss)
  then show ?case by (simp add: Scaler_init_def)
next
  case (refit s x y)
  show ?case
  proof (cases "to_tensor (searchspace s)")
    case Nil
    with refit show ?thesis by (simp add: fit_transform_empty_space)
  next
    case (Cons r rs)
    show ?thesis
      unfolding fit_transform_stores [OF Cons] by auto
  qed
qed

lemma fitted_after_fit_transform:
  "fitted (fst (DefaultScaler_fit_transform s x y)) \<longleftrightarrow>
   fitted s \<or> to_tensor (searchspace s) \<noteq> []"
proof (cases "to_tensor (searchspace s)")
  case Nil
  then show ?thesis by (simp add: fit_transform_empty_space)
next
  case (Cons r rs)
  then show ?thesis by (simp add: fit_transform_stores [OF Cons])
qed

lemma fit_transform_success_fitted:
  "snd (DefaultScaler_fit_transform s x y) = Inr r \<Longrightarrow>
   fitted (fst (DefaultScaler_fit_transform s x y))"
  by (cases "to_tensor (searchspace s)")
    (simp_all add: fit_transform_empty_space fit_transform_stores)

lemma unscale_m_is_unscale_y: "unscale_m_lambda m sd = unscale_y_lambda m sd"
  by (rule ext) (simp add: unscale_m_lambda_def unscale_y_lambda_def)

lemma torch_mean_example: "torch_mean [2, 4, 6] = Some 4"
  by (simp add: torch_mean_def)

lemma torch_std_example: "torch_std [2, 4, 6] = Some 2"
proof -
  have "sqrt 4 = 2" using real_sqrt_abs [of 2] by simp
  then show ?thesis by (simp add: torch_std_def power2_eq_square)
qed

lemma example_space: "to_tensor [(''s0'', [0]), (''s1'', [10])] = [0] # [[10]]"
  by (simp add: to_tensor_def)

lemma example_fit:
  "fst (DefaultScaler_fit_transform (Scaler_init [(''s0'', [0]), (''s1'', [10])]) x [2, 4, 6]) =
     (Scaler_init [(''s0'', [0]), (''s1'', [10])])
     \<lparr>scale_x := Some (scale_x_lambda ([0], [10])),
      scale_y := Some (scale_y_lambda (Some 4) (Some 2)),
      unscale_x := Some (unscale_x_lambda ([0], [10])),
      unscale_y := Some (unscale_y_lambda (Some 4) (Some 2)),
      unscale_m := Some (unscale_m_lambda (Some 4) (Some 2)),
      unscale_s := Some (unscale_s_lambda (Some 2)),
      fitted := True\<rparr>"
proof -
  have "searchspace (Scaler_init [(''s0'', [0]), (''s1'', [10])]) = [(''s0'', [0]), (''s1'', [10])]"
    by (simp add: Scaler_init_def)
  then have "to_tensor (searchspace (Scaler_init [(''s0'', [0]), (''s1'', [10])])) = [0] # [[10]]"
    by (simp add: example_space)
  from fit_transform_stores [OF this, of x "[2, 4, 6]"] show ?thesis
    by (simp add: torch_mean_example torch_std_example)
qed

text \<open>
  C2, as the spec states it, fails. \<open>torch.std\<close> divides by \<open>n - 1\<close>, so the standard
  deviation of the targets 2, 4, 6 is 2, not about 1.63 (the value for a division by
  \<open>n\<close>), and \<open>unscale_variance(1)\<close> is 4, not about 2.67.
\<close>

theorem default_scaler_example_sample_std:
  "torch_std [2, 4, 6] = Some 2 \<and> \<not> \<bar>2 - 1.63\<bar> \<le> (0.01 :: real)
   \<and> Scaler_untransform
        (fst (DefaultScaler_fit_transform (Scaler_init [(''s0'', [0]), (''s1'', [10])])
               [[0], [5], [10]] [2, 4, 6])) [0] [1]
       = Inr ([Some 4], [Some 4])
   \<and> \<not> \<bar>4 - 2.67\<bar> \<le> (0.01 :: real)"
  by (simp add: torch_std_example example_fit Scaler_untransform_def
      unscale_m_lambda_def unscale_s_lambda_def fadd_def fmul_def)

text \<open>
  C2, amended. For a \<open>DefaultScaler\<close> on a space with one feature ranging over 0 to 10,
  fitted on the targets 2, 4, 6 (with any training inputs), the mean is 4 and the
  standard deviation is 2; \<open>scale_x(5)\<close> is 0.5, \<open>scale_y(4)\<close> is 0 and
  \<open>unscale_variance(1)\<close> is 4.
\<close>

theorem default_scaler_example:
  "torch_mean [2, 4, 6] = Some 4 \<and> torch_std [2, 4, 6] = Some 2
   \<and> Scaler_transform
        (fst (DefaultScaler_fit_transform (Scaler_init [(''s0'', [0]), (''s1'', [10])]) x [2, 4, 6]))
        [[5]] = Inr [[Some (1 / 2)]]
   \<and> scale_y (fst (DefaultScaler_fit_transform (Scaler_init [(''s0'', [0]), (''s1'', [10])]) x [2, 4, 6]))
       = Some (scale_y_lambda (Some 4) (Some 2))
   \<and> scale_y_lambda (Some 4) (Some 2) [4] = [Some 0]
   \<and> Scaler_untransform
        (fst (DefaultScaler_fit_transform (Scaler_init [(''s0'', [0]), (''s1'', [10])]) x [2, 4, 6]))
        [0] [1] = Inr ([Some 4], [Some 4])"
  by (simp add: torch_mean_example torch_std_example example_fit Scaler_transform_def
      Scaler_untransform_def scale_x_lambda_def scale_y_lambda_def broadcast2_def
      unscale_m_lambda_def unscale_s_lambda_def fadd_def fmul_def fsub_def fdiv_def)

theorem default_scaler_example_witness:
  "Scaler_transform
        (fst (DefaultScaler_fit_transform (Scaler_init [(''s0'', [0]), (''s1'', [10])])
               [[0], [5], [10]] [2, 4, 6]))
        [[5]] = Inr [[Some (1 / 2)]]
   \<and> Scaler_untransform
        (fst (DefaultScaler_fit_transform (Scaler_init [(''s0'', [0]), (''s1'', [10])])
               [[0], [5], [10]] [2, 4, 6]))
        [0] [1] = Inr ([Some 4], [Some 4])"
  using default_scaler_example [of "[[0], [5], [10]]"] by blast

text \<open>
  C6, as the spec states it, fails. \<open>fit_transform\<close> sets the flag before it scales the
  training data. With a space of two features and training inputs of three, the call
  raises a shape error and so has not run successfully, yet the instance is fitted:
  \<open>transform\<close> returns the scaled input instead of raising the not-fitted error.
\<close>

theorem failed_fit_transform_leaves_fitted:
  "snd (DefaultScaler_fit_transform (Scaler_init [(''s0'', [0, 0]), (''s1'', [10, 10])])
          [[1, 2, 3]] [2, 4, 6]) = Inl RuntimeError_shape_mismatch
   \<and> Scaler_transform
       (fst (DefaultScaler_fit_transform (Scaler_init [(''s0'', [0, 0]), (''s1'', [10, 10])])
               [[1, 2, 3]] [2, 4, 6])) [[5, 5]]
     = Inr [[Some (1 / 2), Some (1 / 2)]]"
proof -
  have c: "to_tensor (searchspace (Scaler_init [(''s0'', [0, 0]), (''s1'', [10, 10])]))
         = [0, 0] # [[10, 10]]"
    by (simp add: Scaler_init_def to_tensor_def)
  show ?thesis
    unfolding fit_transform_stores [OF c] fit_transform_outcome [OF c]
    by (simp add: Scaler_transform_def scale_x_lambda_def broadcast2_def fdiv_def)
qed

text \<open>
  C6, amended. On every instance a program can hold, \<open>transform\<close> and \<open>untransform\<close>
  raise the not-fitted error if and only if the instance's \<open>fitted\<close> flag is unset, and
  on a fitted instance \<open>transform(x)\<close> is the stored \<open>scale_x\<close> applied to \<open>x\<close>. A fresh
  instance is unfitted. A call of \<open>fit_transform\<close> leaves the flag set exactly when it
  was set before or the stored space has a row (the reduction of the bounds passes and the
  six functions are stored); in particular every call that returns leaves it set.
\<close>

theorem not_fitted_error_iff_flag_unset:
  assumes "scaler_reachable s"
  shows "(Scaler_transform s x = Inl RuntimeError_not_fitted \<longleftrightarrow> \<not> fitted s)
       \<and> (Scaler_untransform s mean variance = Inl RuntimeError_not_fitted \<longleftrightarrow> \<not> fitted s)
       \<and> (fitted s \<longrightarrow> (\<exists>f. scale_x s = Some f \<and> Scaler_transform s x = f x))
       \<and> \<not> fitted (Scaler_init ss)
       \<and> (fitted (fst (DefaultScaler_fit_transform s x' y'))
            \<longleftrightarrow> fitted s \<or> to_tensor (searchspace s) \<noteq> [])
       \<and> (\<forall>r. snd (DefaultScaler_fit_transform s x' y') = Inr r
            \<longrightarrow> fitted (fst (DefaultScaler_fit_transform s x' y')))"
proof -
  have 1: "Scaler_transform s x = Inl RuntimeError_not_fitted \<longleftrightarrow> \<not> fitted s"
  proof (cases "fitted s")
    case True
    with reachable_closures [OF assms] obtain b where "scale_x s = Some (scale_x_lambda b)"
      by blast
    with True show ?thesis
      by (auto simp: Scaler_transform_def dest: scale_x_lambda_error)
  next
    case False
    then show ?thesis by (simp add: Scaler_transform_def)
  qed
  have 2: "Scaler_untransform s mean variance = Inl RuntimeError_not_fitted \<longleftrightarrow> \<not> fitted s"
  proof (cases "fitted s")
    case True
    with reachable_closures [OF assms] obtain m sd sd'
      where "unscale_m s = Some (unscale_m_lambda m sd)"
        and "unscale_s s = Some (unscale_s_lambda sd')"
      by blast
    with True show ?thesis by (simp add: Scaler_untransform_def)
  next
    case False
    then show ?thesis by (simp add: Scaler_untransform_def)
  qed
  have 3: "fitted s \<longrightarrow> (\<exists>f. scale_x s = Some f \<and> Scaler_transform s x = f x)"
  proof
    assume f: "fitted s"
    with reachable_closures [OF assms] obtain b where "scale_x s = Some (scale_x_lambda b)"
      by blast
    with f show "\<exists>f. scale_x s = Some f \<and> Scaler_transform s x = f x"
      by (simp add: Scaler_transform_def)
  qed
  have 4: "\<not> fitted (Scaler_init ss)" by (simp add: Scaler_init_def)
  from 1 2 3 4 fitted_after_fit_transform [of s x' y'] fit_transform_success_fitted [of s x' y']
  show ?thesis by blast
qed

theorem not_fitted_error_iff_flag_unset_witness:
  "scaler_reachable (Scaler_init [(''s0'', [0, 0]), (''s1'', [10, 10])])
   \<and> Scaler_transform (Scaler_init [(''s0'', [0, 0]), (''s1'', [10, 10])]) [[5, 5]]
       = Inl RuntimeError_not_fitted
   \<and> fitted (fst (DefaultScaler_fit_transform (Scaler_init [(''s0'', [0, 0]), (''s1'', [10, 10])])
                 [[1, 2, 3]] [2, 4, 6]))"
proof -
  have r: "scaler_reachable (Scaler_init [(''s0'', [0, 0]), (''s1'', [10, 10])])"
    by (rule scaler_reachable.fresh)
  have n: "to_tensor (searchspace (Scaler_init [(''s0'', [0, 0]), (''s1'', [10, 10])])) \<noteq> []"
    by (simp add: Scaler_init_def to_tensor_def)
  from not_fitted_error_iff_flag_unset
    [OF r, of "[[5, 5]]" _ _ "[(''s0'', [0, 0]), (''s1'', [10, 10])]" "[[1, 2, 3]]" "[2, 4, 6]"] n r
  show ?thesis by blast
qed

lemma sum_list_abs_bound:
  "list_all (\<lambda>w. \<bar>w\<bar> \<le> R) y \<Longrightarrow> \<bar>sum_list y\<bar> \<le> real (length y) * R"
  by (induction y) (auto simp: algebra_simps)

lemma sum_list_map_bound:
  "list_all (\<lambda>w. 0 \<le> f w \<and> f w \<le> c) y \<Longrightarrow>
   0 \<le> sum_list (map f y) \<and> sum_list (map f y) \<le> real (length y) * c"
  by (induction y) (auto simp: algebra_simps)

lemma torch_mean_bound:
  assumes "torch_mean y = Some m" and "list_all (\<lambda>w. \<bar>w\<bar> \<le> R) y"
  shows "\<bar>m\<bar> \<le> R"
proof -
  from assms(1) have ne: "y \<noteq> []" and m: "m = sum_list y / real (length y)"
    by (auto simp: torch_mean_def split: if_splits)
  from ne have n: "0 < real (length y)" by simp
  have "\<bar>m\<bar> = \<bar>sum_list y\<bar> / real (length y)" using n by (simp add: m)
  also have "\<dots> \<le> (real (length y) * R) / real (length y)"
    using sum_list_abs_bound [OF assms(2)] n by (intro divide_right_mono) simp_all
  also have "\<dots> = R" using n by simp
  finally show ?thesis .
qed

lemma torch_std_bound:
  assumes "torch_std y = Some sd" and "list_all (\<lambda>w. \<bar>w\<bar> \<le> R) y" and "0 \<le> R"
  shows "0 \<le> sd \<and> sd\<^sup>2 \<le> 8 * R\<^sup>2 \<and> sd \<le> 3 * R"
proof -
  let ?n = "real (length y)"
  let ?mu = "sum_list y / ?n"
  let ?S = "sum_list (map (\<lambda>w. (w - ?mu)\<^sup>2) y)"
  from assms(1) have n2: "2 \<le> length y" and sd: "sd = sqrt (?S / real (length y - 1))"
    by (auto simp: torch_std_def split: if_splits)
  from n2 have ne: "y \<noteq> []" by auto
  then have "torch_mean y = Some ?mu" by (simp add: torch_mean_def)
  from torch_mean_bound [OF this assms(2)] have mu: "\<bar>?mu\<bar> \<le> R" .
  have "list_all (\<lambda>w. 0 \<le> (w - ?mu)\<^sup>2 \<and> (w - ?mu)\<^sup>2 \<le> 4 * R\<^sup>2) y"
    unfolding list_all_iff
  proof
    fix w assume "w \<in> set y"
    with assms(2) have "\<bar>w\<bar> \<le> R" by (simp add: list_all_iff)
    with mu have "\<bar>w - ?mu\<bar> \<le> 2 * R" by linarith
    then have "\<bar>w - ?mu\<bar>\<^sup>2 \<le> (2 * R)\<^sup>2"
      by (intro power_mono) simp_all
    then show "0 \<le> (w - ?mu)\<^sup>2 \<and> (w - ?mu)\<^sup>2 \<le> 4 * R\<^sup>2"
      by (simp add: power_mult_distrib)
  qed
  from sum_list_map_bound [OF this]
  have S0: "0 \<le> ?S" and S1: "?S \<le> ?n * (4 * R\<^sup>2)" by simp_all
  from n2 have d: "real (length y - 1) = ?n - 1" and d1: "1 \<le> ?n - 1"
    by (simp_all add: of_nat_diff)
  have sd': "sd = sqrt (?S / (?n - 1))" using sd d by simp
  have "?n \<le> 2 * (?n - 1)" using d1 by simp
  then have "?n * (4 * R\<^sup>2) \<le> (2 * (?n - 1)) * (4 * R\<^sup>2)"
    by (intro mult_right_mono) simp_all
  with S1 have "?S \<le> (8 * R\<^sup>2) * (?n - 1)" by (simp add: algebra_simps)
  then have q: "?S / (?n - 1) \<le> 8 * R\<^sup>2"
    using d1 by (simp add: pos_divide_le_eq)
  have q0: "0 \<le> ?S / (?n - 1)" using S0 d1 by simp
  have 1: "0 \<le> sd" unfolding sd' using q0 by (rule real_sqrt_ge_zero)
  have "sd\<^sup>2 = ?S / (?n - 1)" unfolding sd' using q0 by (rule real_sqrt_pow2)
  with q have 2: "sd\<^sup>2 \<le> 8 * R\<^sup>2" by simp
  have "sd\<^sup>2 \<le> 9 * R\<^sup>2" using 2 zero_le_power2 [of R] by linarith
  then have "sd\<^sup>2 \<le> (3 * R)\<^sup>2" by (simp add: power_mult_distrib)
  moreover have "0 \<le> 3 * R" using assms(3) by simp
  ultimately have 3: "sd \<le> 3 * R" by (rule power2_le_imp_le)
  from 1 2 3 show ?thesis by blast
qed

lemma rescaled_mean_in_range:
  assumes "\<bar>w\<bar> \<le> R" and "\<bar>m\<bar> \<le> R" and "0 \<le> sd" and "sd \<le> 3 * R" and "1 \<le> R"
    and "2 \<le> n" and "8 * n * R ^ 3 \<le> float_max"
  shows "\<bar>w * sd + m\<bar> \<le> float_max"
proof -
  have "\<bar>w * sd\<bar> \<le> R * (3 * R)"
    unfolding abs_mult using assms by (intro mult_mono) simp_all
  then have "\<bar>w * sd + m\<bar> \<le> 3 * R\<^sup>2 + R"
    using assms(2) by (simp add: power2_eq_square)
  also have "\<dots> \<le> 4 * R\<^sup>2"
    using assms(5) by (simp add: power2_eq_square)
  also have "\<dots> \<le> 8 * n * R ^ 3"
  proof -
    have "R\<^sup>2 \<le> R ^ 3" using assms(5) by (simp add: power_increasing)
    then have "4 * R\<^sup>2 \<le> 4 * R ^ 3" by simp
    also have "\<dots> \<le> (8 * n) * R ^ 3"
      using assms(5,6) by (intro mult_right_mono) simp_all
    finally show ?thesis by simp
  qed
  finally show ?thesis using assms(7) by linarith
qed

lemma rescaled_variance_in_range:
  assumes "\<bar>w\<bar> \<le> R" and "sd\<^sup>2 \<le> 8 * R\<^sup>2" and "1 \<le> R"
    and "2 \<le> n" and "8 * n * R ^ 3 \<le> float_max"
  shows "\<bar>w * sd\<^sup>2\<bar> \<le> float_max"
proof -
  have "\<bar>w * sd\<^sup>2\<bar> = \<bar>w\<bar> * sd\<^sup>2" by (simp add: abs_mult)
  also have "\<dots> \<le> R * (8 * R\<^sup>2)"
    using assms(1,2,3) by (intro mult_mono) simp_all
  also have "\<dots> = 8 * R ^ 3" by (simp add: power2_eq_square power3_eq_cube)
  also have "\<dots> \<le> (8 * n) * R ^ 3"
    using assms(3,4) by (intro mult_right_mono) simp_all
  finally show ?thesis using assms(5) by linarith
qed

text \<open>
  C7. For a \<open>DefaultScaler\<close> fitted on targets with mean \<open>m\<close> and standard deviation
  \<open>sd\<close>, \<open>untransform(mean, variance)\<close> returns \<open>mean * sd + m\<close> and
  \<open>variance * sd\<^sup>2\<close> elementwise: the inverse-mean scale is the inverse-target scale, the
  inverse-variance scale multiplies by the square of \<open>sd\<close> and adds no mean. This is
  stated where the arithmetic cannot overflow: the \<open>n\<close> targets and the given means and
  variances are at most \<open>R\<close> in magnitude, and \<open>8 * n\<^sup>2 * R\<^sup>3\<close> is within the float
  range. Then every sum, deviation, square and product that the code forms on the way
  stays in range, and so do the returned values.
\<close>

theorem untransform_mean_and_variance:
  assumes "to_tensor (searchspace s) \<noteq> []"
    and "torch_mean y = Some m" and "torch_std y = Some sd"
    and "1 \<le> R" and "8 * (real (length y))\<^sup>2 * R ^ 3 \<le> float_max"
    and "list_all (\<lambda>w. \<bar>w\<bar> \<le> R) y"
    and "list_all (\<lambda>w. \<bar>w\<bar> \<le> R) mean"
    and "list_all (\<lambda>w. \<bar>w\<bar> \<le> R) variance"
  shows "Scaler_untransform (fst (DefaultScaler_fit_transform s x y)) mean variance
           = Inr (map (\<lambda>w. Some (w * sd + m)) mean, map (\<lambda>w. Some (w * sd\<^sup>2)) variance)
       \<and> unscale_m (fst (DefaultScaler_fit_transform s x y))
           = unscale_y (fst (DefaultScaler_fit_transform s x y))
       \<and> \<bar>m\<bar> \<le> R \<and> 0 \<le> sd \<and> sd \<le> 3 * R
       \<and> list_all (\<lambda>w. \<bar>w * sd + m\<bar> \<le> float_max) mean
       \<and> list_all (\<lambda>w. \<bar>w * sd\<^sup>2\<bar> \<le> float_max) variance"
proof -
  from assms(1) obtain r rs where c: "to_tensor (searchspace s) = r # rs"
    by (cases "to_tensor (searchspace s)") simp_all
  have 1: "Scaler_untransform (fst (DefaultScaler_fit_transform s x y)) mean variance
           = Inr (map (\<lambda>w. Some (w * sd + m)) mean, map (\<lambda>w. Some (w * sd\<^sup>2)) variance)
       \<and> unscale_m (fst (DefaultScaler_fit_transform s x y))
           = unscale_y (fst (DefaultScaler_fit_transform s x y))"
    unfolding fit_transform_stores [OF c]
    by (simp add: Scaler_untransform_def assms(2,3) unscale_m_is_unscale_y
        unscale_y_lambda_def unscale_s_lambda_def fadd_def fmul_def power2_eq_square)
  from assms(3) have n: "2 \<le> real (length y)"
    by (auto simp: torch_std_def split: if_splits)
  from assms(4) have R0: "0 \<le> R" by simp
  have "real (length y) * 1 \<le> real (length y) * real (length y)"
    using n by (intro mult_left_mono) simp_all
  then have "(8 * real (length y)) * R ^ 3 \<le> (8 * (real (length y))\<^sup>2) * R ^ 3"
    using R0 by (intro mult_right_mono) (simp_all add: power2_eq_square)
  with assms(5) have b: "8 * real (length y) * R ^ 3 \<le> float_max" by simp
  note mb = torch_mean_bound [OF assms(2,6)]
  note sb = torch_std_bound [OF assms(3,6) R0]
  have 2: "list_all (\<lambda>w. \<bar>w * sd + m\<bar> \<le> float_max) mean"
    unfolding list_all_iff
  proof
    fix w assume "w \<in> set mean"
    with assms(7) have "\<bar>w\<bar> \<le> R" by (simp add: list_all_iff)
    then show "\<bar>w * sd + m\<bar> \<le> float_max"
      using mb sb assms(4) n b by (intro rescaled_mean_in_range) simp_all
  qed
  have 3: "list_all (\<lambda>w. \<bar>w * sd\<^sup>2\<bar> \<le> float_max) variance"
    unfolding list_all_iff
  proof
    fix w assume "w \<in> set variance"
    with assms(8) have "\<bar>w\<bar> \<le> R" by (simp add: list_all_iff)
    then show "\<bar>w * sd\<^sup>2\<bar> \<le> float_max"
      using sb assms(4) n b by (intro rescaled_variance_in_range) simp_all
  qed
  from 1 mb sb 2 3 show ?thesis by simp
qed

theorem untransform_mean_and_variance_witness:
  "Scaler_untransform
     (fst (DefaultScaler_fit_transform (Scaler_init [(''s0'', [0]), (''s1'', [10])])
            [[0], [5], [10]] [2, 4, 6])) [1, 0] [1, 3]
     = Inr ([Some 6, Some 4], [Some 4, Some 12])"
proof -
  have b: "(15552 :: real) \<le> float_max"
    unfolding float_max_def by simp
  note t = untransform_mean_and_variance
    [of "Scaler_init [(''s0'', [0]), (''s1'', [10])]" "[2, 4, 6]" 4 2 6 "[1, 0]" "[1, 3]"
        "[[0], [5], [10]]", THEN conjunct1]
  have "Scaler_untransform
     (fst (DefaultScaler_fit_transform (Scaler_init [(''s0'', [0]), (''s1'', [10])])
            [[0], [5], [10]] [2, 4, 6])) [1, 0] [1, 3]
     = Inr (map (\<lambda>w. Some (w * 2 + 4)) [1, 0], map (\<lambda>w. Some (w * 2\<^sup>2)) [1, 3])"
    by (rule t) (simp_all add: Scaler_init_def to_tensor_def torch_mean_example
        torch_std_example b)
  then show ?thesis by simp
qed

text \<open>
  C8. The input scale of a \<open>DefaultScaler\<close> depends on the stored space only: two
  \<open>fit_transform\<close> calls on instances holding the same space, whatever training inputs
  and targets each is given, store the same \<open>scale_x\<close> and the same \<open>unscale_x\<close>, built
  from the per-column minimum and maximum of the whole stored space.
\<close>

theorem input_scale_depends_only_on_searchspace:
  assumes "searchspace s1 = searchspace s2"
    and "torch_min_dim0 (to_tensor (searchspace s1)) = Inr lo"
    and "torch_max_dim0 (to_tensor (searchspace s1)) = Inr hi"
  shows "scale_x (fst (DefaultScaler_fit_transform s1 x1 y1)) = Some (scale_x_lambda (lo, hi))
       \<and> scale_x (fst (DefaultScaler_fit_transform s2 x2 y2)) = Some (scale_x_lambda (lo, hi))
       \<and> unscale_x (fst (DefaultScaler_fit_transform s1 x1 y1)) = Some (unscale_x_lambda (lo, hi))
       \<and> unscale_x (fst (DefaultScaler_fit_transform s2 x2 y2)) = Some (unscale_x_lambda (lo, hi))"
  using assms
  by (simp add: DefaultScaler_fit_transform_def Let_def)

theorem input_scale_depends_only_on_searchspace_witness:
  "scale_x (fst (DefaultScaler_fit_transform (Scaler_init [(''s0'', [0]), (''s1'', [10])])
             [[0], [5], [10]] [2, 4, 6]))
   = scale_x (fst (DefaultScaler_fit_transform (Scaler_init [(''s0'', [0]), (''s1'', [10])])
             [[10], [0]] [1, 7]))
   \<and> unscale_x (fst (DefaultScaler_fit_transform (Scaler_init [(''s0'', [0]), (''s1'', [10])])
             [[0], [5], [10]] [2, 4, 6]))
   = unscale_x (fst (DefaultScaler_fit_transform (Scaler_init [(''s0'', [0]), (''s1'', [10])])
             [[10], [0]] [1, 7]))"
  using input_scale_depends_only_on_searchspace
    [of "Scaler_init [(''s0'', [0]), (''s1'', [10])]" "Scaler_init [(''s0'', [0]), (''s1'', [10])]"
        "[0]" "[10]" "[[0], [5], [10]]" "[2, 4, 6]" "[[10], [0]]" "[1, 7]"]
  by (simp add: Scaler_init_def to_tensor_def torch_min_dim0_def torch_max_dim0_def)

section \<open>Properties of the registries\<close>

text \<open>
  C9. Registration is automatic and exact. The hook that runs on a class statement
  enters a concrete class with a declared name into the registry under that name
  (nothing else is called), for recommenders and for scalers. After the class statements
  of the recommender module the recommender registry holds exactly the two concrete
  recommenders under their names, and after those of the scaler module the scaler
  registry holds exactly the default scaler; the abstract bases are in neither.
\<close>

theorem registration_is_automatic_and_exact:
  assumes "\<not> isabstract MarginalRankingRecommender_cls"
    and "\<not> isabstract RandomRecommender_cls"
  shows "recommender_module isabstract
           = Inr [''UNRESTRICTED_RANKING'' \<mapsto> ''MarginalRankingRecommender'',
                  ''RANDOM'' \<mapsto> ''RandomRecommender'']
       \<and> scaler_module = Inr [''DEFAULT'' \<mapsto> ''DefaultScaler'']
       \<and> ''Recommender'' \<notin> ran [''UNRESTRICTED_RANKING'' \<mapsto> ''MarginalRankingRecommender'',
                                  ''RANDOM'' \<mapsto> ''RandomRecommender'']
       \<and> ''Scaler'' \<notin> ran [''DEFAULT'' \<mapsto> ''DefaultScaler'']
       \<and> (\<not> isabstract cls \<and> cls_type cls = Some t \<longrightarrow>
            Recommender_init_subclass isabstract reg cls = Inr (reg(t \<mapsto> cls_name cls)))
       \<and> (cls_type cls = Some t \<longrightarrow>
            Scaler_init_subclass reg cls = Inr (reg(t \<mapsto> cls_name cls)))"
proof -
  have 1: "recommender_module isabstract
           = Inr [''UNRESTRICTED_RANKING'' \<mapsto> ''MarginalRankingRecommender'',
                  ''RANDOM'' \<mapsto> ''RandomRecommender'']"
    using assms
    by (simp add: recommender_module_def Recommender_init_subclass_def
        MarginalRankingRecommender_cls_def RandomRecommender_cls_def)
  have 2: "scaler_module = Inr [''DEFAULT'' \<mapsto> ''DefaultScaler'']"
    by (simp add: scaler_module_def Scaler_init_subclass_def DefaultScaler_cls_def)
  have 3: "''Recommender'' \<notin> ran [''UNRESTRICTED_RANKING'' \<mapsto> ''MarginalRankingRecommender'',
                                  ''RANDOM'' \<mapsto> ''RandomRecommender'']"
    by (auto simp: ran_def split: if_splits)
  have 4: "''Scaler'' \<notin> ran [''DEFAULT'' \<mapsto> ''DefaultScaler'']"
    by (auto simp: ran_def split: if_splits)
  have 5: "\<not> isabstract cls \<and> cls_type cls = Some t \<longrightarrow>
            Recommender_init_subclass isabstract reg cls = Inr (reg(t \<mapsto> cls_name cls))"
    by (simp add: Recommender_init_subclass_def)
  have 6: "cls_type cls = Some t \<longrightarrow>
            Scaler_init_subclass reg cls = Inr (reg(t \<mapsto> cls_name cls))"
    by (simp add: Scaler_init_subclass_def)
  from 1 2 3 4 5 6 show ?thesis by blast
qed

theorem registration_is_automatic_and_exact_witness:
  "recommender_module (\<lambda>c. ''ABC'' \<in> set (cls_bases c))
     = Inr [''UNRESTRICTED_RANKING'' \<mapsto> ''MarginalRankingRecommender'',
            ''RANDOM'' \<mapsto> ''RandomRecommender'']
   \<and> Recommender_init_subclass (\<lambda>c. ''ABC'' \<in> set (cls_bases c)) Map.empty
       \<lparr>cls_name = ''TypeA'', cls_type = Some ''A'', cls_bases = [''Recommender'']\<rparr>
     = Inr [''A'' \<mapsto> ''TypeA'']"
proof -
  have a: "\<not> (\<lambda>c. ''ABC'' \<in> set (cls_bases c)) MarginalRankingRecommender_cls"
    and b: "\<not> (\<lambda>c. ''ABC'' \<in> set (cls_bases c)) RandomRecommender_cls"
    by (simp_all add: MarginalRankingRecommender_cls_def RandomRecommender_cls_def)
  from registration_is_automatic_and_exact
    [of "\<lambda>c. ''ABC'' \<in> set (cls_bases c)"
        "\<lparr>cls_name = ''TypeA'', cls_type = Some ''A'', cls_bases = [''Recommender'']\<rparr>"
        "''A''" Map.empty, OF a b]
  show ?thesis by simp
qed

end
